theory Spec2Isabelle
  imports Complex_Main
begin

section \<open>XTranscribe: input modes, progress simulation and playback synchronisation\<close>

text \<open>
  A shallow embedding of the orchestration component (\<^verbatim>\<open>src/app/page.tsx\<close>), the audio
  transport (\<^verbatim>\<open>src/components/audio-player.tsx\<close>), the segment activation predicate
  (\<^verbatim>\<open>src/components/transcript-editor.tsx\<close>) and the transcription flow
  (\<^verbatim>\<open>transcribe-audio-flow.ts\<close>).

  Conventions of the embedding.
  \<^item> A JavaScript number that holds a time in seconds is the \<^typ>\<open>real\<close> it denotes
    (the finite doubles; no NaN). Comparison, \<^verbatim>\<open>Math.max\<close> and \<^verbatim>\<open>Math.min\<close> are exact
    on doubles. An addition rounds its exact result to the nearest double, and a decimal
    literal denotes the double nearest to it: both are written with \<open>roundToDouble\<close>.
    The progress percentage is an \<^typ>\<open>int\<close>.
  \<^item> A JavaScript string is the list of its code units, for code units below 256
    (\<^typ>\<open>string\<close>). \<^verbatim>\<open>null\<close> and \<^verbatim>\<open>undefined\<close> are \<open>None\<close>.
  \<^item> React state is a record. A handler is a function from the state of the render
    it was created in to the state after all the updates it queued have been applied, in
    the order they were queued. Every handler below reads a state variable only before
    it queues an update to it, or binds the value read first, so that passing the state
    along gives the same result as React's queue.
  \<^item> A ref (\<^verbatim>\<open>useRef\<close>) is a field of the record that is read and written at once.
  \<^item> An asynchronous handler is split at its \<^verbatim>\<open>await\<close>: a function for the part that
    runs at the call, and one for the continuation, which takes the outcome of the
    awaited promise.
\<close>

subsection \<open>Strings\<close>

text \<open>
  \<^verbatim>\<open>String.prototype.trim\<close> removes white space and line terminators from both ends.
  Among the code units below 256 these are TAB, LF, VT, FF, CR, SPACE and NBSP.
\<close>

definition isWhiteSpace :: "char \<Rightarrow> bool" where
  "isWhiteSpace c = (of_char c \<in> {9, 10, 11, 12, 13, 32, 160 :: nat})"

definition trim :: "string \<Rightarrow> string" where
  "trim s = rev (dropWhile isWhiteSpace (rev (dropWhile isWhiteSpace s)))"

text \<open>\<^verbatim>\<open>Array.prototype.join\<close> on a list of strings.\<close>

fun join :: "string \<Rightarrow> string list \<Rightarrow> string" where
  "join sep [] = []"
| "join sep [x] = x"
| "join sep (x # y # ys) = x @ sep @ join sep (y # ys)"

text \<open>Truthiness of a string (\<^verbatim>\<open>!!s\<close>) and of a nullable value (\<^verbatim>\<open>!!x\<close>).\<close>

definition truthy :: "string \<Rightarrow> bool" where
  "truthy s = (case s of [] \<Rightarrow> False | _ # _ \<Rightarrow> True)"

definition present :: "'a option \<Rightarrow> bool" where
  "present x = (case x of None \<Rightarrow> False | Some _ \<Rightarrow> True)"

definition truthyOpt :: "string option \<Rightarrow> bool" where
  "truthyOpt x = (case x of None \<Rightarrow> False | Some s \<Rightarrow> truthy s)"

text \<open>\<^verbatim>\<open>a || b\<close> on strings: the first operand when it is truthy, else the second.\<close>

definition orElse :: "string \<Rightarrow> string \<Rightarrow> string" where
  "orElse a b = (if truthy a then a else b)"

subsection \<open>Numbers\<close>






subsection \<open>Transcript segments (transcript-editor.tsx)\<close>

record TranscriptSegment =
  seg_start :: real
  seg_end :: real
  seg_text :: string


subsection \<open>The audio transport (audio-player.tsx)\<close>

text \<open>
  The part of the \<^verbatim>\<open>HTMLAudioElement\<close> that the component reads or writes. The
  element's methods follow the HTML media element: \<^verbatim>\<open>pause()\<close> sets \<^verbatim>\<open>paused\<close>,
  \<^verbatim>\<open>play()\<close> clears it (the promise it returns settles later, in a callback of its
  own), \<^verbatim>\<open>load()\<close> restarts resource selection (paused, position 0, nothing loaded),
  and assigning \<^verbatim>\<open>currentTime\<close> moves the position.
\<close>

record AudioElement =
  el_src :: "string option"
  el_currentTime :: real
  el_paused :: bool
  el_readyState :: nat

definition el_pause :: "AudioElement \<Rightarrow> AudioElement" where
  "el_pause e = e\<lparr>el_paused := True\<rparr>"

definition el_play :: "AudioElement \<Rightarrow> AudioElement" where
  "el_play e = e\<lparr>el_paused := False\<rparr>"

definition el_load :: "AudioElement \<Rightarrow> AudioElement" where
  "el_load e = e\<lparr>el_paused := True, el_currentTime := 0, el_readyState := 0\<rparr>"

text \<open>
  The component: its \<^verbatim>\<open>src\<close> prop, the element ref and the state variables of the
  play and seek axis (volume and mute are independent of it and are left out).
\<close>

record AudioPlayer =
  src :: "string option"
  audioRef :: "AudioElement option"
  isPlaying :: bool
  currentTime :: real
  duration :: real
  isLoading :: bool
  error :: "string option"

definition handlePlayPause :: "AudioPlayer \<Rightarrow> AudioPlayer" where
  "handlePlayPause p =
     (case audioRef p of
        None \<Rightarrow> p
      | Some e \<Rightarrow>
          if truthyOpt (src p) then
            (if isPlaying p then p\<lparr>audioRef := Some (el_pause e)\<rparr>
             else if el_readyState e \<ge> 2 then p\<lparr>audioRef := Some (el_play e)\<rparr>
             else p\<lparr>isLoading := True, error := None, audioRef := Some (el_load e)\<rparr>)
          else p)"

definition seekTo :: "real \<Rightarrow> AudioPlayer \<Rightarrow> AudioPlayer" where
  "seekTo time p =
     (case audioRef p of
        None \<Rightarrow> p
      | Some e \<Rightarrow>
          if duration p > 0 then
            (let validTime = max 0 (min (duration p) time);
                 e' = e\<lparr>el_currentTime := validTime\<rparr>;
                 p' = p\<lparr>audioRef := Some e', currentTime := validTime\<rparr>
             in if \<not> isPlaying p \<and> el_paused e' then handlePlayPause p' else p')
          else p)"

definition play :: "AudioPlayer \<Rightarrow> AudioPlayer" where
  "play p = (if present (audioRef p) \<and> \<not> isPlaying p then handlePlayPause p else p)"

definition pause :: "AudioPlayer \<Rightarrow> AudioPlayer" where
  "pause p = (if present (audioRef p) \<and> isPlaying p then handlePlayPause p else p)"

text \<open>
  The effect on \<^verbatim>\<open>[src]\<close>: it runs when the component is rendered with a new source.
\<close>

definition srcEffect :: "string option \<Rightarrow> AudioPlayer \<Rightarrow> AudioPlayer" where
  "srcEffect newSrc p =
     (let p' = p\<lparr>src := newSrc, isPlaying := False, currentTime := 0, duration := 0,
                  isLoading := truthyOpt newSrc, error := None\<rparr>
      in case audioRef p of
           None \<Rightarrow> p'
         | Some e \<Rightarrow>
             if truthyOpt newSrc then p'\<lparr>audioRef := Some (el_load (e\<lparr>el_src := newSrc\<rparr>))\<rparr>
             else p'\<lparr>audioRef := Some (el_pause (el_load (e\<lparr>el_src := None\<rparr>)))\<rparr>)"

text \<open>
  \<^verbatim>\<open>handleLoadedMetadata\<close>; \<open>elementDuration\<close> is what \<^verbatim>\<open>audioRef.current.duration\<close>
  holds when the event fires.
\<close>

definition handleLoadedMetadata :: "real \<Rightarrow> AudioPlayer \<Rightarrow> AudioPlayer" where
  "handleLoadedMetadata elementDuration p =
     (case audioRef p of
        None \<Rightarrow> p
      | Some e \<Rightarrow> p\<lparr>duration := elementDuration, isLoading := False, error := None\<rparr>)"

text \<open>The element's \<^verbatim>\<open>play\<close> event (\<^verbatim>\<open>onPlay\<close>).\<close>

definition onPlay :: "AudioPlayer \<Rightarrow> AudioPlayer" where
  "onPlay p = p\<lparr>isPlaying := True, isLoading := False, error := None\<rparr>"

subsection \<open>The transcription flow (transcribe-audio-flow.ts)\<close>

text \<open>
  A promise that has settled: resolved with a value, or rejected with a thrown value, of
  which only the \<^verbatim>\<open>message\<close> is read (\<open>None\<close> when the thrown value has none).
\<close>

datatype 'a Settled = Resolved 'a | Rejected "string option"

datatype JsError = Error string

record TranscribeAudioInput =
  in_audioDataUri :: string
  in_language :: string

record TranscribeAudioOutput =
  out_text :: string
  out_segments :: "TranscriptSegment list"

text \<open>
  The output of the prompt (\<^verbatim>\<open>TranscribeAudioPromptOutputInternalSchema\<close>): the text is
  optional. The prompt itself is the model's answer and is a parameter of the flow.
\<close>

record PromptOutput =
  po_text :: "string option"
  po_segments :: "TranscriptSegment list"

text \<open>
  The body of \<^verbatim>\<open>transcribeAudioFlow\<close>. Every throw inside its \<^verbatim>\<open>try\<close>, its own for a
  missing output included, is caught and thrown again with a prefixed message.
\<close>

definition transcribeAudioFlow :: "PromptOutput option Settled \<Rightarrow> JsError + TranscribeAudioOutput" where
  "transcribeAudioFlow promptResult =
     (case promptResult of
        Rejected msg \<Rightarrow>
          Inl (Error (''Transcription failed: '' @
            (case msg of Some m \<Rightarrow> m
             | None \<Rightarrow> ''An unknown error occurred during transcription.'')))
      | Resolved None \<Rightarrow>
          Inl (Error (''Transcription failed: '' @
            ''Transcription failed to produce an output from the prompt.''))
      | Resolved (Some promptOutput) \<Rightarrow>
          (let text0 = (case po_text promptOutput of None \<Rightarrow> [] | Some t \<Rightarrow> t);
               segments = po_segments promptOutput;
               fullText =
                 (if (\<not> truthy text0 \<or> trim text0 = []) \<and> length segments > 0
                  then trim (join '' '' (map seg_text segments))
                  else text0)
           in if trim fullText = [] \<and> length segments = 0
              then Inr \<lparr>out_text = [], out_segments = []\<rparr>
              else Inr \<lparr>out_text = fullText, out_segments = segments\<rparr>))"

text \<open>The exported wrapper \<^verbatim>\<open>transcribeAudio\<close>, which checks its input first.\<close>

definition transcribeAudio ::
  "(TranscribeAudioInput \<Rightarrow> PromptOutput option Settled) \<Rightarrow> TranscribeAudioInput
     \<Rightarrow> JsError + TranscribeAudioOutput" where
  "transcribeAudio transcribeAudioPrompt input =
     (if \<not> truthy (in_audioDataUri input) then Inl (Error ''Audio data URI is required.'')
      else if \<not> truthy (in_language input) then Inl (Error ''Language is required.'')
      else transcribeAudioFlow (transcribeAudioPrompt input))"

text \<open>
  The later revision of the flow (\<^verbatim>\<open>src/ai/flows/transcribe-audio-flow.ts\<close>), which the
  page imports: the text of a segment is optional too and defaults to the empty string,
  and every failure is thrown again with one fixed message.
\<close>

record RawSegment =
  raw_start :: real
  raw_end :: real
  raw_text :: "string option"

record RawPromptOutput =
  rpo_text :: "string option"
  rpo_segments :: "RawSegment list"

definition flowFailedMessage :: string where
  "flowFailedMessage =
     ''Server-side transcription flow failed. Check server logs for details (search for '' @
     [CHR 0x22] @ ''TRANSFLOW: Error explicitly caught'' @ [CHR 0x22] @
     ''). The most common cause is a missing or invalid GOOGLE_GENAI_API_KEY.''"

definition transcribeAudioFlow_rev ::
  "RawPromptOutput option Settled \<Rightarrow> JsError + TranscribeAudioOutput" where
  "transcribeAudioFlow_rev promptResult =
     (case promptResult of
        Rejected msg \<Rightarrow> Inl (Error flowFailedMessage)
      | Resolved None \<Rightarrow> Inl (Error flowFailedMessage)
      | Resolved (Some promptOutput) \<Rightarrow>
          (let text0 = (case rpo_text promptOutput of None \<Rightarrow> [] | Some t \<Rightarrow> t);
               rawSegments = rpo_segments promptOutput;
               segmentsToReturn =
                 map (\<lambda>rawSegment.
                        \<lparr>seg_start = raw_start rawSegment, seg_end = raw_end rawSegment,
                         seg_text = (case raw_text rawSegment of None \<Rightarrow> [] | Some t \<Rightarrow> t)\<rparr>)
                     rawSegments;
               fullText =
                 (if (\<not> truthy text0 \<or> trim text0 = []) \<and> length segmentsToReturn > 0
                  then trim (join '' '' (map seg_text segmentsToReturn))
                  else text0)
           in if trim fullText = [] \<and> length segmentsToReturn = 0
              then Inr \<lparr>out_text = [], out_segments = []\<rparr>
              else Inr \<lparr>out_text = fullText, out_segments = segmentsToReturn\<rparr>))"

subsection \<open>The orchestration component (page.tsx)\<close>

record File =
  file_name :: string
  file_size :: nat

datatype ToastVariant = Default | Destructive

record Toast =
  title :: string
  description :: "string option"
  variant :: "ToastVariant option"
  toast_duration :: "nat option"

text \<open>The callbacks the component passes to \<^verbatim>\<open>setTimeout\<close>.\<close>

datatype TimeoutCallback =
    SelectAndProcess File string
  | ProcessOnly File string
  | EndYouTubeIndicator

text \<open>
  The state variables (but \<^verbatim>\<open>fontSize\<close> and \<^verbatim>\<open>isClient\<close>, which no handler reads
  or writes), the two refs, and what the component hands to its environment:
  the notices it shows (\<open>toasts\<close>) and the timeouts it schedules (\<open>timeouts\<close>, each with
  its delay in milliseconds), both in the order of the calls.
  \<open>progressIntervalRef\<close> is \<open>Some c\<close> while an interval is running, \<open>c\<close> being the
  \<^verbatim>\<open>currentProgress\<close> variable its callback closes over.
\<close>

record PageState =
  selectedFile :: "File option"
  youtubeUrl :: string
  audioSrc :: "string option"
  transcriptSegments :: "TranscriptSegment list"
  fullTranscript :: string
  language :: string
  summaryPrompt :: string
  summary :: string
  isProcessingFile :: bool
  isProcessingYouTube :: bool
  isSummarizing :: bool
  currentAudioTime :: real
  youtubePlaceholderMessage :: "string option"
  transcriptionProgress :: int
  aiSuggestions :: "string list"
  selectedAiPrompt :: string
  audioPlayerRef :: "AudioPlayer option"
  progressIntervalRef :: "int option"
  toasts :: "Toast list"
  timeouts :: "(nat \<times> TimeoutCallback) list"

text \<open>
  \<^verbatim>\<open>if (audioPlayerRef.current) { pause(); seekTo(0); }\<close>, which four handlers share.
\<close>

definition pauseAndSeekToZero :: "AudioPlayer option \<Rightarrow> AudioPlayer option" where
  "pauseAndSeekToZero r = (case r of None \<Rightarrow> None | Some p \<Rightarrow> Some (seekTo 0 (pause p)))"

definition handleClearAndReset :: "PageState \<Rightarrow> PageState" where
  "handleClearAndReset s =
     s\<lparr>progressIntervalRef := None,
       isProcessingFile := False,
       transcriptionProgress := 0,
       selectedFile := None,
       youtubeUrl := [],
       youtubePlaceholderMessage := None,
       isProcessingYouTube := False,
       transcriptSegments := [],
       fullTranscript := [],
       summary := [],
       summaryPrompt := [],
       selectedAiPrompt := [],
       aiSuggestions := [],
       currentAudioTime := 0,
       audioPlayerRef := pauseAndSeekToZero (audioPlayerRef s),
       toasts := toasts s @
         [\<lparr>title = ''Form Cleared'',
           description = Some ''Ready for a new file or YouTube URL.'',
           variant = None, toast_duration = None\<rparr>]\<rparr>"

text \<open>
  \<^verbatim>\<open>handleProcessFile\<close> up to its first \<^verbatim>\<open>await\<close>. The new interval starts with
  \<^verbatim>\<open>currentProgress = 0\<close>.
\<close>

definition handleProcessFile_begin :: "File option \<Rightarrow> string \<Rightarrow> PageState \<Rightarrow> PageState" where
  "handleProcessFile_begin fileToProcess langToUse s =
     (case fileToProcess of
        None \<Rightarrow> s
      | Some f \<Rightarrow>
          s\<lparr>isProcessingFile := True,
            transcriptSegments := [],
            fullTranscript := [],
            summary := [],
            transcriptionProgress := 0,
            currentAudioTime := 0,
            audioPlayerRef := pauseAndSeekToZero (audioPlayerRef s),
            youtubeUrl := [],
            youtubePlaceholderMessage := None,
            isProcessingYouTube := False,
            progressIntervalRef := Some 0,
            toasts := toasts s @
              [\<lparr>title = ''Processing File...'',
                description = Some (''Starting transcription of '' @ file_name f @
                  ''. This may take a few moments.''),
                variant = None, toast_duration = None\<rparr>]\<rparr>)"

text \<open>The callback of the progress interval; it runs only while the interval is set.\<close>

definition progressTick :: "PageState \<Rightarrow> PageState" where
  "progressTick s =
     (case progressIntervalRef s of
        None \<Rightarrow> s
      | Some c \<Rightarrow>
          (let currentProgress = c + 5
           in s\<lparr>progressIntervalRef := Some currentProgress,
                transcriptionProgress := (if currentProgress < 95 then currentProgress else 95)\<rparr>))"

text \<open>
  The rest of \<^verbatim>\<open>handleProcessFile\<close>, once the conversion and the transcription call have
  settled: the end of the \<^verbatim>\<open>try\<close> block or the \<^verbatim>\<open>catch\<close> block, then \<^verbatim>\<open>finally\<close>.
  The result is read through \<^verbatim>\<open>result?.\<close>, hence the option.
\<close>

definition handleProcessFile_settle ::
  "TranscribeAudioOutput option Settled \<Rightarrow> PageState \<Rightarrow> PageState" where
  "handleProcessFile_settle outcome s =
     (case outcome of
        Resolved result \<Rightarrow>
          (let segs = (case result of None \<Rightarrow> [] | Some r \<Rightarrow> out_segments r);
               txt = (case result of None \<Rightarrow> [] | Some r \<Rightarrow> out_text r)
           in s\<lparr>progressIntervalRef := None,
                transcriptionProgress := 100,
                transcriptSegments := segs,
                fullTranscript := txt,
                toasts := toasts s @
                  [if (\<not> truthy txt \<or> trim txt = []) \<and> length segs = 0
                   then \<lparr>title = ''Processing Note'',
                          description = Some (''Transcription complete, but the AI returned no content. '' @
                            ''The audio might be silent or in an unsupported format/language for the AI model.''),
                          variant = Some Default, toast_duration = Some 7000\<rparr>
                   else \<lparr>title = ''Processing Complete'',
                          description = Some ''Transcript generated successfully.'',
                          variant = None, toast_duration = None\<rparr>],
                isProcessingFile := False\<rparr>)
      | Rejected msg \<Rightarrow>
          s\<lparr>progressIntervalRef := None,
            transcriptionProgress := 0,
            transcriptSegments := [],
            fullTranscript := [],
            toasts := toasts s @
              [\<lparr>title = ''Processing Error'',
                description = Some (''Failed to process file: '' @
                  orElse (case msg of None \<Rightarrow> [] | Some m \<Rightarrow> m) ''Please try again.''),
                variant = Some Destructive, toast_duration = None\<rparr>],
            isProcessingFile := False\<rparr>)"

definition handleFileSelected :: "File \<Rightarrow> PageState \<Rightarrow> PageState" where
  "handleFileSelected file s =
     (if truthy (trim (youtubeUrl s)) \<or> truthyOpt (youtubePlaceholderMessage s)
      then (let s1 = handleClearAndReset s
            in s1\<lparr>timeouts := timeouts s1 @ [(0, SelectAndProcess file (language s))]\<rparr>)
      else s\<lparr>selectedFile := Some file,
             timeouts := timeouts s @ [(0, ProcessOnly file (language s))]\<rparr>)"

definition runTimeout :: "TimeoutCallback \<Rightarrow> PageState \<Rightarrow> PageState" where
  "runTimeout cb s =
     (case cb of
        SelectAndProcess file lang \<Rightarrow>
          handleProcessFile_begin (Some file) lang (s\<lparr>selectedFile := Some file\<rparr>)
      | ProcessOnly file lang \<Rightarrow> handleProcessFile_begin (Some file) lang s
      | EndYouTubeIndicator \<Rightarrow> s\<lparr>isProcessingYouTube := False\<rparr>)"

definition handleYouTubeUrlChange :: "string \<Rightarrow> PageState \<Rightarrow> PageState" where
  "handleYouTubeUrlChange newUrl s =
     (let s1 = s\<lparr>youtubeUrl := newUrl\<rparr>
      in if truthy (trim newUrl)
         then (let s2 = (if present (selectedFile s) \<or> isProcessingFile s
                         then handleClearAndReset s1 else s1)
               in s2\<lparr>youtubePlaceholderMessage := None,
                     transcriptSegments := [],
                     fullTranscript := [],
                     summary := [],
                     audioSrc := None,
                     audioPlayerRef := pauseAndSeekToZero (audioPlayerRef s2)\<rparr>)
         else s1\<lparr>youtubePlaceholderMessage := None\<rparr>)"

definition placeholderText :: "string \<Rightarrow> string" where
  "placeholderText url =
     ''Full transcription for YouTube URLs (like '' @ [CHR 0x22] @ url @ [CHR 0x22] @
     '') is a feature currently under development and not yet functional.'' @
     [CHR 0x0A, CHR 0x0A] @
     ''This is because it requires a backend service to fetch and process the video'' @
     [CHR 0x27] @ ''s audio, which is beyond the current scope.'' @
     [CHR 0x0A, CHR 0x0A] @
     ''Please use the file upload feature for transcription at this time.''"

text \<open>
  \<^verbatim>\<open>handleProcessYouTubeUrl\<close>: the URL in the message is the one of the render the handler
  was created in, whatever the reset queues.
\<close>

definition handleProcessYouTubeUrl :: "PageState \<Rightarrow> PageState" where
  "handleProcessYouTubeUrl s =
     (if \<not> truthy (trim (youtubeUrl s))
      then s\<lparr>toasts := toasts s @
             [\<lparr>title = ''No URL'',
               description = Some ''Please enter a YouTube video URL.'',
               variant = Some Default, toast_duration = None\<rparr>]\<rparr>
      else (let s1 = (if present (selectedFile s) \<or> isProcessingFile s
                      then handleClearAndReset s else s)
            in s1\<lparr>isProcessingYouTube := True,
                  isProcessingFile := False,
                  progressIntervalRef := None,
                  transcriptionProgress := 0,
                  audioSrc := None,
                  transcriptSegments := [],
                  fullTranscript := [],
                  summary := [],
                  currentAudioTime := 0,
                  audioPlayerRef := pauseAndSeekToZero (audioPlayerRef s1),
                  youtubePlaceholderMessage := Some (placeholderText (youtubeUrl s)),
                  toasts := toasts s1 @
                    [\<lparr>title = ''YouTube Feature Not Active'',
                      description = Some (''Actual transcription for YouTube URLs is not yet implemented. '' @
                        ''This is a placeholder. Please use file upload.''),
                      variant = Some Default, toast_duration = Some 8000\<rparr>],
                  timeouts := timeouts s1 @ [(500, EndYouTubeIndicator)]\<rparr>))"

text \<open>\<^verbatim>\<open>handleSummarize\<close>, split at its \<^verbatim>\<open>await\<close> like \<^verbatim>\<open>handleProcessFile\<close>.\<close>

definition handleSummarize_begin :: "PageState \<Rightarrow> PageState" where
  "handleSummarize_begin s =
     (if \<not> truthy (trim (fullTranscript s)) \<or> truthyOpt (youtubePlaceholderMessage s)
      then s\<lparr>toasts := toasts s @
             [\<lparr>title = ''Not Ready for Summary'',
               description = Some ''No transcript available or YouTube placeholder active.'',
               variant = Some Default, toast_duration = None\<rparr>]\<rparr>
      else if \<not> truthy (trim (summaryPrompt s))
      then s\<lparr>toasts := toasts s @
             [\<lparr>title = ''No Prompt Provided'',
               description = Some ''Please enter or select a summarization prompt.'',
               variant = Some Default, toast_duration = None\<rparr>]\<rparr>
      else s\<lparr>isSummarizing := True, summary := []\<rparr>)"

definition handleSummarize_settle :: "string Settled \<Rightarrow> PageState \<Rightarrow> PageState" where
  "handleSummarize_settle outcome s =
     (case outcome of
        Resolved resultSummary \<Rightarrow>
          s\<lparr>summary := resultSummary,
            toasts := toasts s @
              [\<lparr>title = ''Summarization Complete'', description = None,
                variant = None, toast_duration = None\<rparr>],
            isSummarizing := False\<rparr>
      | Rejected msg \<Rightarrow>
          s\<lparr>toasts := toasts s @
              [\<lparr>title = ''Summarization Error'',
                description = Some (orElse (case msg of None \<Rightarrow> [] | Some m \<Rightarrow> m)
                  ''Failed to generate summary. Please try again.''),
                variant = Some Destructive, toast_duration = None\<rparr>],
            isSummarizing := False\<rparr>)"

text \<open>
  The effect on \<^verbatim>\<open>[selectedFile, isProcessingFile]\<close>, which runs after a render in which
  one of the two has changed. \<open>newObjectUrl\<close> is what \<^verbatim>\<open>URL.createObjectURL\<close> returns in
  this run.
\<close>

definition audioSrcEffect :: "string \<Rightarrow> PageState \<Rightarrow> PageState" where
  "audioSrcEffect newObjectUrl s =
     (case selectedFile s of
        Some f \<Rightarrow>
          s\<lparr>audioSrc := Some newObjectUrl,
            youtubeUrl := [],
            youtubePlaceholderMessage := None,
            isProcessingYouTube := False\<rparr>
      | None \<Rightarrow> s\<lparr>audioSrc := None\<rparr>)"

text \<open>
  The audio transport is rendered with \<^verbatim>\<open>src={audioSrc}\<close>; its own effect runs when the
  source differs from the one of its last render.
\<close>

definition renderAudioPlayer :: "PageState \<Rightarrow> PageState" where
  "renderAudioPlayer s =
     s\<lparr>audioPlayerRef :=
         (case audioPlayerRef s of
            None \<Rightarrow> None
          | Some p \<Rightarrow> Some (if src p = audioSrc s then p else srcEffect (audioSrc s) p))\<rparr>"

text \<open>The booleans derived at each render, which disable the controls.\<close>

definition isAnyProcessingActive :: "PageState \<Rightarrow> bool" where
  "isAnyProcessingActive s = (isProcessingFile s \<or> isProcessingYouTube s)"

definition isTranscriptAvailable :: "PageState \<Rightarrow> bool" where
  "isTranscriptAvailable s =
     ((length (trim (fullTranscript s)) > 0 \<or> length (transcriptSegments s) > 0)
      \<and> \<not> truthyOpt (youtubePlaceholderMessage s) \<and> \<not> isProcessingFile s)"

definition fileUploadDisabled :: "PageState \<Rightarrow> bool" where
  "fileUploadDisabled s = (isAnyProcessingActive s \<or> truthy (trim (youtubeUrl s)))"

definition languageSelectDisabled :: "PageState \<Rightarrow> bool" where
  "languageSelectDisabled s = (isProcessingFile s \<or> truthy (trim (youtubeUrl s)))"

definition youtubeInputDisabled :: "PageState \<Rightarrow> bool" where
  "youtubeInputDisabled s = (isAnyProcessingActive s \<or> present (selectedFile s))"

definition processYoutubeButtonDisabled :: "PageState \<Rightarrow> bool" where
  "processYoutubeButtonDisabled s =
     (\<not> truthy (trim (youtubeUrl s)) \<or> isAnyProcessingActive s \<or> present (selectedFile s))"

definition featuresRequiringTranscriptDisabled :: "PageState \<Rightarrow> bool" where
  "featuresRequiringTranscriptDisabled s =
     (\<not> isTranscriptAvailable s \<or> isSummarizing s \<or> isProcessingFile s)"

definition clearAndResetDisabled :: "PageState \<Rightarrow> bool" where
  "clearAndResetDisabled s = (isProcessingFile s \<or> isProcessingYouTube s \<or> isSummarizing s)"

text \<open>
  The state after the first client render: nothing selected, German as the language,
  the audio transport mounted with no source.
\<close>

definition initialState :: PageState where
  "initialState =
     \<lparr>selectedFile = None, youtubeUrl = [], audioSrc = None, transcriptSegments = [],
      fullTranscript = [], language = ''de'', summaryPrompt = [], summary = [],
      isProcessingFile = False, isProcessingYouTube = False, isSummarizing = False,
      currentAudioTime = 0, youtubePlaceholderMessage = None, transcriptionProgress = 0,
      aiSuggestions = [], selectedAiPrompt = [],
      audioPlayerRef = Some \<lparr>src = None,
        audioRef = Some \<lparr>el_src = None, el_currentTime = 0, el_paused = True,
                         el_readyState = 0\<rparr>,
        isPlaying = False, currentTime = 0, duration = 0, isLoading = False, error = None\<rparr>,
      progressIntervalRef = None, toasts = [], timeouts = []\<rparr>"

subsection \<open>A file-processing attempt as a sequence of states\<close>

text \<open>
  One attempt: the call of \<^verbatim>\<open>handleProcessFile\<close>, then \<open>n\<close> runs of the interval
  callback while the transcription call is pending, then the continuation with the
  outcome. \<open>attemptTrace\<close> lists the state after each of these \<open>n + 2\<close> steps.
\<close>

fun tickTrace :: "nat \<Rightarrow> PageState \<Rightarrow> PageState list" where
  "tickTrace 0 s = []"
| "tickTrace (Suc n) s = progressTick s # tickTrace n (progressTick s)"

definition attemptTrace ::
  "File \<Rightarrow> string \<Rightarrow> nat \<Rightarrow> TranscribeAudioOutput option Settled \<Rightarrow> PageState
     \<Rightarrow> PageState list" where
  "attemptTrace file lang n outcome s =
     (let s0 = handleProcessFile_begin (Some file) lang s;
          pending = s0 # tickTrace n s0
      in pending @ [handleProcessFile_settle outcome (last pending)])"

subsection \<open>Runs of the component\<close>

text \<open>
  The states below are reached from \<open>initialState\<close> by the handlers above, in an order
  the controls allow. \<open>renderAfterFileChange\<close> is the render that follows a change of the
  selected file or of the file-processing flag, with both effects. The browser's part is
  \<open>browserLoads\<close> (the media is loaded far enough to play).
\<close>

definition renderAfterFileChange :: "string \<Rightarrow> PageState \<Rightarrow> PageState" where
  "renderAfterFileChange newObjectUrl s = renderAudioPlayer (audioSrcEffect newObjectUrl s)"

definition browserLoads :: "AudioPlayer \<Rightarrow> AudioPlayer" where
  "browserLoads p =
     p\<lparr>audioRef := (case audioRef p of None \<Rightarrow> None | Some e \<Rightarrow> Some (e\<lparr>el_readyState := 4\<rparr>))\<rparr>"

definition meeting :: File where
  "meeting = \<lparr>file_name = ''meeting.mp3'', file_size = 1024\<rparr>"

definition helloWorld :: TranscribeAudioOutput where
  "helloWorld =
     \<lparr>out_text = ''Hello world'',
      out_segments = [\<lparr>seg_start = 0, seg_end = 1, seg_text = ''Hello''\<rparr>,
                      \<lparr>seg_start = 1, seg_end = 2, seg_text = ''world''\<rparr>]\<rparr>"

text \<open>
  The file \<open>meeting\<close> has been selected, its processing has started and the interval has
  run eight times.
\<close>

definition fileInFlight :: PageState where
  "fileInFlight =
     (progressTick ^^ 8)
       (renderAfterFileChange ''blob:2''
         (runTimeout (ProcessOnly meeting ''de'')
           (renderAfterFileChange ''blob:1'' (handleFileSelected meeting initialState))))"

text \<open>
  Then the transcription call has returned \<open>helloWorld\<close> and the browser has loaded the
  audio, two seconds long; nobody has pressed play.
\<close>

definition fileProcessed :: PageState where
  "fileProcessed =
     (let s = renderAfterFileChange ''blob:3''
                (handleProcessFile_settle (Resolved (Some helloWorld)) fileInFlight)
      in s\<lparr>audioPlayerRef :=
             (case audioPlayerRef s of
                None \<Rightarrow> None
              | Some p \<Rightarrow> Some (handleLoadedMetadata 2 (browserLoads p)))\<rparr>)"

text \<open>
  Then the user has typed a prompt (\<^verbatim>\<open>setSummaryPrompt\<close>) and started a summary, which is
  pending.
\<close>

definition summaryPending :: PageState where
  "summaryPending = handleSummarize_begin (fileProcessed\<lparr>summaryPrompt := ''Summarize briefly''\<rparr>)"

text \<open>
  In the initial state, a single no-break space (code unit 160) has arrived in the URL
  input. An input of type \<^verbatim>\<open>url\<close> strips ASCII white space from its value, which this
  character is not.
\<close>

definition blankUrlEntered :: PageState where
  "blankUrlEntered = handleYouTubeUrlChange [CHR 0xA0] initialState"

text \<open>
  After \<open>fileProcessed\<close>, the user has pressed the play button and the element has
  reported that it plays.
\<close>

definition audioPlaying :: PageState where
  "audioPlaying =
     fileProcessed\<lparr>audioPlayerRef :=
       (case audioPlayerRef fileProcessed of
          None \<Rightarrow> None
        | Some p \<Rightarrow> Some (onPlay (handlePlayPause p)))\<rparr>"

text \<open>In the initial state, the user has entered a URL.\<close>

definition urlEntered :: PageState where
  "urlEntered = handleYouTubeUrlChange ''https://x/y'' initialState"

section \<open>Theorems\<close>

lemma funpow_8: "(f ^^ 8) x = f (f (f (f (f (f (f (f x)))))))"
  by (simp add: eval_nat_numeral)

subsection \<open>Rounding\<close>








subsection \<open>Segment activation\<close>



subsection \<open>Seeking\<close>

text \<open>
  C9. \<open>seekTo\<close> applies a seek only when the duration is positive; the time it
  assigns, to the element and to the displayed position, is the request clamped to
  \<open>[0, duration]\<close>, so the outcome depends on the request only through the clamped
  time (the element holds it afterwards when the transport plays or has data; else the
  attempt to play that follows the seek reloads the media); with duration 0, or with no
  element, the request leaves the playback state as it was.
\<close>

theorem seekTo_clamped:
  "(duration p > 0 \<and> audioRef p = Some e \<longrightarrow>
      currentTime (seekTo t p) = max 0 (min (duration p) t)
      \<and> 0 \<le> currentTime (seekTo t p) \<and> currentTime (seekTo t p) \<le> duration p
      \<and> seekTo t p = seekTo (max 0 (min (duration p) t)) p
      \<and> (isPlaying p \<or> el_readyState e \<ge> 2 \<longrightarrow>
            map_option el_currentTime (audioRef (seekTo t p))
              = Some (max 0 (min (duration p) t))))
   \<and> (duration p = 0 \<longrightarrow> seekTo t p = p)
   \<and> (audioRef p = None \<longrightarrow> seekTo t p = p)
   \<and> (seekTo t p \<noteq> p \<longrightarrow> duration p > 0)"
proof -
  have clamp_idem: "max 0 (min d (max 0 (min d t))) = max 0 (min d t)" if "d > 0" for d :: real
    using that by (simp add: max_def min_def)
  have time: "currentTime (seekTo t p) = max 0 (min (duration p) t)"
    if "duration p > 0" "audioRef p = Some e"
    using that by (simp add: seekTo_def handlePlayPause_def Let_def)
  have range: "0 \<le> max 0 (min (duration p) t) \<and> max 0 (min (duration p) t) \<le> duration p"
    if "duration p > 0"
    using that by (simp add: max_def min_def)
  have same: "seekTo t p = seekTo (max 0 (min (duration p) t)) p" if "duration p > 0"
    unfolding seekTo_def clamp_idem [OF that] by (rule refl)
  have elt: "map_option el_currentTime (audioRef (seekTo t p)) = Some (max 0 (min (duration p) t))"
    if "duration p > 0" "audioRef p = Some e" "isPlaying p \<or> el_readyState e \<ge> 2"
    using that
    by (auto simp add: seekTo_def handlePlayPause_def Let_def el_play_def el_pause_def)
  have noop: "seekTo t p = p" if "\<not> duration p > 0"
    using that by (simp add: seekTo_def split: option.splits)
  have unmounted: "seekTo t p = p" if "audioRef p = None"
    using that by (simp add: seekTo_def)
  show ?thesis
    using time range same elt noop unmounted by (metis less_irrefl)
qed

theorem seekTo_clamped_witness:
  "seekTo 7 \<lparr>src = Some ''blob:a'', audioRef = Some \<lparr>el_src = Some ''blob:a'',
       el_currentTime = 1, el_paused = False, el_readyState = 4\<rparr>, isPlaying = True,
       currentTime = 1, duration = 3, isLoading = False, error = None\<rparr>
   = \<lparr>src = Some ''blob:a'', audioRef = Some \<lparr>el_src = Some ''blob:a'',
       el_currentTime = 3, el_paused = False, el_readyState = 4\<rparr>, isPlaying = True,
       currentTime = 3, duration = 3, isLoading = False, error = None\<rparr>
   \<and> seekTo 7 \<lparr>src = None, audioRef = Some \<lparr>el_src = None,
       el_currentTime = 0, el_paused = True, el_readyState = 0\<rparr>, isPlaying = False,
       currentTime = 0, duration = 0, isLoading = False, error = None\<rparr>
   = \<lparr>src = None, audioRef = Some \<lparr>el_src = None,
       el_currentTime = 0, el_paused = True, el_readyState = 0\<rparr>, isPlaying = False,
       currentTime = 0, duration = 0, isLoading = False, error = None\<rparr>"
  using seekTo_clamped [of "\<lparr>src = Some ''blob:a'', audioRef = Some \<lparr>el_src = Some ''blob:a'',
       el_currentTime = 1, el_paused = False, el_readyState = 4\<rparr>, isPlaying = True,
       currentTime = 1, duration = 3, isLoading = False, error = None\<rparr>"
       "\<lparr>el_src = Some ''blob:a'', el_currentTime = 1, el_paused = False, el_readyState = 4\<rparr>" 7]
    seekTo_clamped [of "\<lparr>src = None, audioRef = Some \<lparr>el_src = None,
       el_currentTime = 0, el_paused = True, el_readyState = 0\<rparr>, isPlaying = False,
       currentTime = 0, duration = 0, isLoading = False, error = None\<rparr>" e 7 for e]
  by (simp add: seekTo_def)

subsection \<open>The transcription flow\<close>

lemma trim_Nil: "trim [] = []"
  by (simp add: trim_def)

lemma blank_iff: "(\<not> truthy t \<or> trim t = []) = (trim t = [])"
  by (cases t) (simp_all add: truthy_def trim_Nil)

text \<open>
  The two revisions of the flow agree on a prompt output in which every segment has its
  text.
\<close>

lemma transcribeAudioFlow_rev_agrees:
  "transcribeAudioFlow_rev (Resolved (Some
       \<lparr>rpo_text = po_text promptOutput,
        rpo_segments = map (\<lambda>g. \<lparr>raw_start = seg_start g, raw_end = seg_end g,
                                   raw_text = Some (seg_text g)\<rparr>) (po_segments promptOutput)\<rparr>))
     = transcribeAudioFlow (Resolved (Some promptOutput))"
proof -
  have "map (\<lambda>rawSegment.
               \<lparr>seg_start = raw_start rawSegment, seg_end = raw_end rawSegment,
                seg_text = (case raw_text rawSegment of None \<Rightarrow> [] | Some t \<Rightarrow> t)\<rparr>)
          (map (\<lambda>g. \<lparr>raw_start = seg_start g, raw_end = seg_end g, raw_text = Some (seg_text g)\<rparr>)
             segs) = segs" for segs :: "TranscriptSegment list"
    by (induction segs) simp_all
  then show ?thesis
    by (simp add: transcribeAudioFlow_rev_def transcribeAudioFlow_def Let_def)
qed

text \<open>
  C10. When the full text of the prompt output is missing or only white space, the flow
  returns, without raising: for a non-empty segment list, the segment texts joined with
  single spaces and trimmed, with the segments; for an empty segment list, exactly the
  empty text and no segments.
\<close>

theorem transcribeAudioFlow_text_from_segments:
  assumes "po_text promptOutput = None \<or> (\<exists>t. po_text promptOutput = Some t \<and> trim t = [])"
  shows "transcribeAudioFlow (Resolved (Some promptOutput)) =
           (if po_segments promptOutput = []
            then Inr \<lparr>out_text = [], out_segments = []\<rparr>
            else Inr \<lparr>out_text = trim (join '' '' (map seg_text (po_segments promptOutput))),
                       out_segments = po_segments promptOutput\<rparr>)"
  using assms
  by (auto simp add: transcribeAudioFlow_def Let_def blank_iff trim_Nil)

theorem transcribeAudioFlow_text_from_segments_witness:
  "transcribeAudioFlow (Resolved (Some
       \<lparr>po_text = Some ''  '',
        po_segments = [\<lparr>seg_start = 0, seg_end = 1, seg_text = '' Hello''\<rparr>,
                       \<lparr>seg_start = 1, seg_end = 2, seg_text = ''world ''\<rparr>]\<rparr>))
     = Inr \<lparr>out_text = ''Hello world'',
            out_segments = [\<lparr>seg_start = 0, seg_end = 1, seg_text = '' Hello''\<rparr>,
                            \<lparr>seg_start = 1, seg_end = 2, seg_text = ''world ''\<rparr>]\<rparr>
   \<and> transcribeAudioFlow (Resolved (Some \<lparr>po_text = None, po_segments = []\<rparr>))
     = Inr \<lparr>out_text = [], out_segments = []\<rparr>"
  using transcribeAudioFlow_text_from_segments
      [of "\<lparr>po_text = Some ''  '',
            po_segments = [\<lparr>seg_start = 0, seg_end = 1, seg_text = '' Hello''\<rparr>,
                           \<lparr>seg_start = 1, seg_end = 2, seg_text = ''world ''\<rparr>]\<rparr>"]
    transcribeAudioFlow_text_from_segments [of "\<lparr>po_text = None, po_segments = []\<rparr>"]
  by (simp add: trim_def isWhiteSpace_def)

subsection \<open>The progress of a file-processing attempt\<close>

lemma length_tickTrace: "length (tickTrace n s) = n"
  by (induction n arbitrary: s) simp_all

lemma tickTrace_nth: "i < n \<Longrightarrow> tickTrace n s ! i = (progressTick ^^ Suc i) s"
proof (induction n arbitrary: s i)
  case 0
  then show ?case by simp
next
  case (Suc n)
  show ?case
  proof (cases i)
    case 0
    then show ?thesis by simp
  next
    case (Suc k)
    with Suc.prems have "k < n" by simp
    from Suc.IH [OF this, of "progressTick s"] Suc show ?thesis
      by (simp add: funpow_swap1)
  qed
qed

lemma progressTick_funpow:
  "progressIntervalRef s = Some c \<Longrightarrow>
     progressIntervalRef ((progressTick ^^ k) s) = Some (c + 5 * int k)
     \<and> isProcessingFile ((progressTick ^^ k) s) = isProcessingFile s
     \<and> transcriptionProgress ((progressTick ^^ k) s)
         = (if k = 0 then transcriptionProgress s else min (c + 5 * int k) 95)"
proof (induction k)
  case 0
  then show ?case by simp
next
  case (Suc k)
  then show ?case
    by (simp add: progressTick_def Let_def min_def)
qed

lemma pending_nth:
  assumes "i \<le> n"
  shows "(handleProcessFile_begin (Some f) lang s #
            tickTrace n (handleProcessFile_begin (Some f) lang s)) ! i
          = (progressTick ^^ i) (handleProcessFile_begin (Some f) lang s)"
  using assms by (cases i) (simp_all add: tickTrace_nth del: funpow.simps)

lemma attemptTrace_nth:
  assumes "i \<le> n"
  shows "transcriptionProgress (attemptTrace f lang n outcome s ! i) = min (5 * int i) 95"
    and "isProcessingFile (attemptTrace f lang n outcome s ! i)"
proof -
  let ?s0 = "handleProcessFile_begin (Some f) lang s"
  have ref: "progressIntervalRef ?s0 = Some 0" and flag: "isProcessingFile ?s0"
    and zero: "transcriptionProgress ?s0 = 0"
    by (simp_all add: handleProcessFile_begin_def)
  have len: "length (?s0 # tickTrace n ?s0) = Suc n"
    by (simp add: length_tickTrace)
  have "attemptTrace f lang n outcome s ! i = (?s0 # tickTrace n ?s0) ! i"
    unfolding attemptTrace_def Let_def using assms len by (simp only: nth_append) simp
  then have nth: "attemptTrace f lang n outcome s ! i = (progressTick ^^ i) ?s0"
    using pending_nth [OF assms, of f lang s] by simp
  show "transcriptionProgress (attemptTrace f lang n outcome s ! i) = min (5 * int i) 95"
    using progressTick_funpow [OF ref, of i] zero by (simp add: nth)
  show "isProcessingFile (attemptTrace f lang n outcome s ! i)"
    using progressTick_funpow [OF ref, of i] flag by (simp add: nth)
qed

lemma attemptTrace_length: "length (attemptTrace f lang n outcome s) = n + 2"
  by (simp add: attemptTrace_def Let_def length_tickTrace)

lemma attemptTrace_last:
  "transcriptionProgress (last (attemptTrace f lang n outcome s))
     = (case outcome of Resolved _ \<Rightarrow> 100 | Rejected _ \<Rightarrow> 0)"
  "\<not> isProcessingFile (last (attemptTrace f lang n outcome s))"
  by (simp_all add: attemptTrace_def Let_def handleProcessFile_settle_def split: Settled.splits)

text \<open>
  C3. In the states of an attempt (after the call, after each run of the interval
  callback, after the continuation), the progress is an integer between 0 and 100; it
  does not decrease from one state in which the file-processing flag is set to a later
  one in which it is set; while the call is pending the flag is set and the progress
  after \<open>i\<close> ticks is \<open>min (5 i) 95\<close>, so at most 95; and the continuation leaves exactly
  100 on success and exactly 0 on failure, with the flag cleared.
\<close>

theorem attempt_progress:
  "let tr = attemptTrace f lang n outcome s in
     length tr = n + 2
     \<and> (\<forall>i < length tr.
           0 \<le> transcriptionProgress (tr ! i) \<and> transcriptionProgress (tr ! i) \<le> 100)
     \<and> (\<forall>i j. i \<le> j \<and> j < length tr \<and> isProcessingFile (tr ! i) \<and> isProcessingFile (tr ! j)
           \<longrightarrow> transcriptionProgress (tr ! i) \<le> transcriptionProgress (tr ! j))
     \<and> (\<forall>i \<le> n. isProcessingFile (tr ! i)
           \<and> transcriptionProgress (tr ! i) = min (5 * int i) 95)
     \<and> transcriptionProgress (last tr)
          = (case outcome of Resolved _ \<Rightarrow> 100 | Rejected _ \<Rightarrow> 0)
     \<and> \<not> isProcessingFile (last tr)"
proof -
  define tr where "tr = attemptTrace f lang n outcome s"
  have len: "length tr = n + 2"
    by (simp add: tr_def attemptTrace_length)
  have lastnth: "tr ! Suc n = last tr"
    using len by (metis add_2_eq_Suc' diff_Suc_1 last_conv_nth length_0_conv nat.distinct(1))
  have pend: "isProcessingFile (tr ! i) \<and> transcriptionProgress (tr ! i) = min (5 * int i) 95"
    if "i \<le> n" for i
    using attemptTrace_nth [OF that] by (simp add: tr_def)
  have fin: "transcriptionProgress (last tr)
      = (case outcome of Resolved _ \<Rightarrow> 100 | Rejected _ \<Rightarrow> 0)"
    and off: "\<not> isProcessingFile (last tr)"
    by (simp_all add: tr_def attemptTrace_last)
  have range: "0 \<le> transcriptionProgress (tr ! i) \<and> transcriptionProgress (tr ! i) \<le> 100"
    if "i < length tr" for i
  proof (cases "i \<le> n")
    case True
    then show ?thesis using pend [of i] by (simp add: min_def)
  next
    case False
    with that len have "i = Suc n" by simp
    then show ?thesis using fin lastnth by (simp split: Settled.splits)
  qed
  have mono: "transcriptionProgress (tr ! i) \<le> transcriptionProgress (tr ! j)"
    if "i \<le> j" "j < length tr" "isProcessingFile (tr ! i)" "isProcessingFile (tr ! j)" for i j
  proof -
    have "j \<le> n"
    proof (rule ccontr)
      assume "\<not> j \<le> n"
      with that(2) len have "j = Suc n" by simp
      with that(4) off lastnth show False by simp
    qed
    with that(1) have "i \<le> n" by simp
    from pend [OF \<open>i \<le> n\<close>] pend [OF \<open>j \<le> n\<close>] that(1) show ?thesis
      by (simp add: min_def)
  qed
  show ?thesis
    unfolding Let_def tr_def [symmetric]
    using len range mono pend fin off by blast
qed

theorem attempt_progress_witness:
  "map transcriptionProgress
     (attemptTrace meeting ''de'' (Suc (Suc (Suc 0))) (Rejected (Some ''boom'')) initialState)
     = [0, 5, 10, 15, 0]
   \<and> map isProcessingFile
     (attemptTrace meeting ''de'' (Suc (Suc (Suc 0))) (Rejected (Some ''boom'')) initialState)
     = [True, True, True, True, False]
   \<and> map transcriptionProgress
     (attemptTrace meeting ''de'' (Suc 0) (Resolved (Some helloWorld)) initialState)
     = [0, 5, 100]"
  using attempt_progress [of meeting "''de''" "Suc (Suc (Suc 0))" "Rejected (Some ''boom'')"
      initialState]
    attempt_progress [of meeting "''de''" "Suc 0" "Resolved (Some helloWorld)" initialState]
  by (simp add: Let_def attemptTrace_def handleProcessFile_begin_def progressTick_def
      handleProcessFile_settle_def initialState_def)

subsection \<open>How an attempt settles\<close>

text \<open>
  C5. When the conversion or the transcription call throws, the continuation cancels
  the interval, sets the progress to exactly 0, clears the segments and the full text,
  and shows a destructive notice whose description ends with the message of the thrown
  error (with a fixed sentence when the message is empty or missing).
\<close>

theorem processFile_failure:
  "let s' = handleProcessFile_settle (Rejected msg) s in
     progressIntervalRef s' = None
     \<and> transcriptionProgress s' = 0
     \<and> transcriptSegments s' = []
     \<and> fullTranscript s' = []
     \<and> isProcessingFile s' = False
     \<and> toasts s' = toasts s @
         [\<lparr>title = ''Processing Error'',
           description = Some (''Failed to process file: '' @
             (case msg of
                None \<Rightarrow> ''Please try again.''
              | Some m \<Rightarrow> if m = [] then ''Please try again.'' else m)),
           variant = Some Destructive, toast_duration = None\<rparr>]"
  by (simp add: handleProcessFile_settle_def orElse_def truthy_def Let_def
      split: option.splits list.splits)

theorem processFile_failure_witness:
  "toasts (handleProcessFile_settle (Rejected (Some ''Transcription failed: quota'')) fileInFlight)
     = toasts fileInFlight @
       [\<lparr>title = ''Processing Error'',
         description = Some ''Failed to process file: Transcription failed: quota'',
         variant = Some Destructive, toast_duration = None\<rparr>]
   \<and> transcriptionProgress fileInFlight = 40
   \<and> transcriptionProgress
       (handleProcessFile_settle (Rejected (Some ''Transcription failed: quota'')) fileInFlight)
     = 0"
  using processFile_failure [of "Some ''Transcription failed: quota''" fileInFlight]
  by (simp add: Let_def fileInFlight_def progressTick_def renderAfterFileChange_def
      renderAudioPlayer_def audioSrcEffect_def runTimeout_def handleProcessFile_begin_def
      handleFileSelected_def initialState_def truthy_def truthyOpt_def trim_def
      funpow_8)

text \<open>
  C6. When the transcription call returns the empty text and no segments, the
  continuation takes the success path: the interval is cancelled, the progress is 100,
  the segments and the full text are empty, the notice is the note with the default
  variant, and the file-processing flag is cleared, as it is for every outcome.
\<close>

theorem processFile_empty_success:
  "let s' = handleProcessFile_settle (Resolved (Some \<lparr>out_text = [], out_segments = []\<rparr>)) s in
     progressIntervalRef s' = None
     \<and> transcriptionProgress s' = 100
     \<and> transcriptSegments s' = []
     \<and> fullTranscript s' = []
     \<and> toasts s' = toasts s @
         [\<lparr>title = ''Processing Note'',
           description = Some (''Transcription complete, but the AI returned no content. '' @
             ''The audio might be silent or in an unsupported format/language for the AI model.''),
           variant = Some Default, toast_duration = Some 7000\<rparr>]
     \<and> isProcessingFile s' = False
     \<and> isProcessingFile (handleProcessFile_settle outcome s) = False"
  by (simp add: handleProcessFile_settle_def truthy_def Let_def split: Settled.splits)

theorem processFile_empty_success_witness:
  "map title (toasts (handleProcessFile_settle
       (Resolved (Some \<lparr>out_text = [], out_segments = []\<rparr>)) fileInFlight))
     = [''Processing File...'', ''Processing Note'']
   \<and> isProcessingFile fileInFlight = True
   \<and> isProcessingFile (handleProcessFile_settle
       (Resolved (Some \<lparr>out_text = [], out_segments = []\<rparr>)) fileInFlight) = False
   \<and> isProcessingFile (handleProcessFile_settle (Rejected None) fileInFlight) = False"
  using processFile_empty_success [of fileInFlight "Rejected None"]
  by (simp add: Let_def fileInFlight_def progressTick_def renderAfterFileChange_def
      renderAudioPlayer_def audioSrcEffect_def runTimeout_def handleProcessFile_begin_def
      handleFileSelected_def initialState_def truthy_def truthyOpt_def trim_def
      funpow_8)

subsection \<open>Facts for evaluating the runs\<close>

lemmas scenario_defs =
  fileInFlight_def fileProcessed_def summaryPending_def audioPlaying_def urlEntered_def
  blankUrlEntered_def initialState_def meeting_def helloWorld_def
  renderAfterFileChange_def renderAudioPlayer_def audioSrcEffect_def browserLoads_def

lemmas handler_defs =
  handleClearAndReset_def handleFileSelected_def handleYouTubeUrlChange_def
  handleProcessYouTubeUrl_def handleProcessFile_begin_def handleProcessFile_settle_def
  handleSummarize_begin_def runTimeout_def progressTick_def pauseAndSeekToZero_def

lemmas player_defs =
  pause_def seekTo_def handlePlayPause_def srcEffect_def handleLoadedMetadata_def onPlay_def
  el_pause_def el_play_def el_load_def

lemmas js_defs = truthy_def truthyOpt_def present_def trim_def isWhiteSpace_def orElse_def

lemmas flag_defs =
  fileUploadDisabled_def youtubeInputDisabled_def processYoutubeButtonDisabled_def
  isAnyProcessingActive_def clearAndResetDisabled_def

subsection \<open>The full reset\<close>

lemma pause_keeps:
  "src (pause p) = src p" "present (audioRef (pause p)) = present (audioRef p)"
  by (simp_all add: pause_def handlePlayPause_def present_def split: option.splits)

lemma seekTo_keeps:
  "src (seekTo t p) = src p" "present (audioRef (seekTo t p)) = present (audioRef p)"
  by (simp_all add: seekTo_def handlePlayPause_def present_def Let_def split: option.splits)

lemma pause_playing:
  "audioRef p = Some e \<Longrightarrow> isPlaying p \<Longrightarrow> truthyOpt (src p) \<Longrightarrow>
     pause p = p\<lparr>audioRef := Some (el_pause e)\<rparr>"
  by (simp add: pause_def handlePlayPause_def present_def)

lemma seekTo_playing:
  "audioRef p = Some e \<Longrightarrow> isPlaying p \<Longrightarrow>
     seekTo 0 p = (if duration p > 0
                   then p\<lparr>audioRef := Some (e\<lparr>el_currentTime := 0\<rparr>), currentTime := 0\<rparr>
                   else p)"
  by (simp add: seekTo_def Let_def)

lemma srcEffect_None:
  "audioRef p = Some e \<Longrightarrow>
     srcEffect None p = p\<lparr>src := None, isPlaying := False, currentTime := 0, duration := 0,
        isLoading := False, error := None,
        audioRef := Some (e\<lparr>el_src := None, el_paused := True, el_currentTime := 0,
                           el_readyState := 0\<rparr>)\<rparr>"
  by (simp add: srcEffect_def truthyOpt_def el_load_def el_pause_def)

text \<open>
  C1, as the code has it. In every state, reachable or not, \<open>handleClearAndReset\<close>
  cancels the progress interval, clears the file-processing and the URL-processing flag
  and leaves the summarizing flag as it was; it sets the progress to 0, clears the
  selected file, the URL text and the placeholder message, empties the segments, the
  full text, the summary, the summary prompt, the selected suggestion and the suggestion
  list, and sets the page's audio time to 0. It calls \<open>pause\<close> and then \<open>seekTo 0\<close> on
  the transport when it is mounted: a transport that was playing a source has its
  element paused, at position zero when its duration is positive. After the render that
  follows, the audio source is null, and a transport that had a source has none and is
  paused at position zero.
\<close>

theorem handleClearAndReset_leaves:
  "let s' = handleClearAndReset s in
     progressIntervalRef s' = None
     \<and> isProcessingFile s' = False
     \<and> isProcessingYouTube s' = False
     \<and> isSummarizing s' = isSummarizing s
     \<and> transcriptionProgress s' = 0
     \<and> selectedFile s' = None
     \<and> youtubeUrl s' = []
     \<and> youtubePlaceholderMessage s' = None
     \<and> transcriptSegments s' = []
     \<and> fullTranscript s' = []
     \<and> summary s' = []
     \<and> summaryPrompt s' = []
     \<and> selectedAiPrompt s' = []
     \<and> aiSuggestions s' = []
     \<and> currentAudioTime s' = 0
     \<and> audioPlayerRef s' =
           (case audioPlayerRef s of None \<Rightarrow> None | Some p \<Rightarrow> Some (seekTo 0 (pause p)))
     \<and> (\<forall>p e. audioPlayerRef s = Some p \<and> audioRef p = Some e \<and> isPlaying p
             \<and> truthyOpt (src p) \<longrightarrow>
           audioPlayerRef s' =
             Some (if duration p > 0
                   then p\<lparr>audioRef := Some (e\<lparr>el_paused := True, el_currentTime := 0\<rparr>),
                          currentTime := 0\<rparr>
                   else p\<lparr>audioRef := Some (e\<lparr>el_paused := True\<rparr>)\<rparr>))
     \<and> audioSrc (renderAfterFileChange u s') = None
     \<and> (\<forall>p e. audioPlayerRef s = Some p \<and> audioRef p = Some e \<and> present (src p) \<longrightarrow>
           (\<exists>p' e'. audioPlayerRef (renderAfterFileChange u s') = Some p'
              \<and> src p' = None \<and> isPlaying p' = False \<and> currentTime p' = 0 \<and> duration p' = 0
              \<and> audioRef p' = Some e' \<and> el_src e' = None \<and> el_paused e' = True
              \<and> el_currentTime e' = 0))"
proof -
  have fields: "progressIntervalRef (handleClearAndReset s) = None"
    "isProcessingFile (handleClearAndReset s) = False"
    "isProcessingYouTube (handleClearAndReset s) = False"
    "isSummarizing (handleClearAndReset s) = isSummarizing s"
    "transcriptionProgress (handleClearAndReset s) = 0"
    "selectedFile (handleClearAndReset s) = None"
    "youtubeUrl (handleClearAndReset s) = []"
    "youtubePlaceholderMessage (handleClearAndReset s) = None"
    "transcriptSegments (handleClearAndReset s) = []"
    "fullTranscript (handleClearAndReset s) = []"
    "summary (handleClearAndReset s) = []"
    "summaryPrompt (handleClearAndReset s) = []"
    "selectedAiPrompt (handleClearAndReset s) = []"
    "aiSuggestions (handleClearAndReset s) = []"
    "currentAudioTime (handleClearAndReset s) = 0"
    by (simp_all add: handleClearAndReset_def)
  have player: "audioPlayerRef (handleClearAndReset s) =
      (case audioPlayerRef s of None \<Rightarrow> None | Some p \<Rightarrow> Some (seekTo 0 (pause p)))"
    by (simp add: handleClearAndReset_def pauseAndSeekToZero_def)
  have playing: "audioPlayerRef (handleClearAndReset s) =
      Some (if duration p > 0
            then p\<lparr>audioRef := Some (e\<lparr>el_paused := True, el_currentTime := 0\<rparr>),
                   currentTime := 0\<rparr>
            else p\<lparr>audioRef := Some (e\<lparr>el_paused := True\<rparr>)\<rparr>)"
    if "audioPlayerRef s = Some p" "audioRef p = Some e" "isPlaying p" "truthyOpt (src p)"
    for p e
    using that by (simp add: player pause_playing seekTo_playing el_pause_def)
  have nosrc: "audioSrc (renderAfterFileChange u (handleClearAndReset s)) = None"
    by (simp add: renderAfterFileChange_def renderAudioPlayer_def audioSrcEffect_def fields)
  have settled: "\<exists>p' e'. audioPlayerRef (renderAfterFileChange u (handleClearAndReset s)) = Some p'
        \<and> src p' = None \<and> isPlaying p' = False \<and> currentTime p' = 0 \<and> duration p' = 0
        \<and> audioRef p' = Some e' \<and> el_src e' = None \<and> el_paused e' = True
        \<and> el_currentTime e' = 0"
    if "audioPlayerRef s = Some p" "audioRef p = Some e" "present (src p)" for p e
  proof -
    let ?q = "seekTo 0 (pause p)"
    have "present (audioRef ?q) = present (audioRef p)"
      by (simp only: seekTo_keeps pause_keeps)
    then have "present (audioRef ?q)"
      using that(2) by (simp add: present_def)
    then obtain e0 where e0: "audioRef ?q = Some e0"
      by (auto simp add: present_def split: option.splits)
    have "src ?q = src p"
      by (simp only: seekTo_keeps pause_keeps)
    then have "src ?q \<noteq> None"
      using that(3) by (auto simp add: present_def split: option.splits)
    then have "audioPlayerRef (renderAfterFileChange u (handleClearAndReset s))
        = Some (srcEffect None ?q)"
      using that(1)
      by (auto simp add: renderAfterFileChange_def renderAudioPlayer_def audioSrcEffect_def
          fields player)
    then show ?thesis
      by (simp add: srcEffect_None [OF e0])
  qed
  show ?thesis
    unfolding Let_def using fields player playing nosrc settled by blast
qed

theorem handleClearAndReset_leaves_witness:
  "audioPlayerRef (handleClearAndReset audioPlaying) =
     Some \<lparr>src = Some ''blob:3'',
           audioRef = Some \<lparr>el_src = Some ''blob:3'', el_currentTime = 0, el_paused = True,
                            el_readyState = 4\<rparr>,
           isPlaying = True, currentTime = 0, duration = 2, isLoading = False, error = None\<rparr>
   \<and> audioPlayerRef (renderAfterFileChange ''blob:4'' (handleClearAndReset audioPlaying)) =
     Some \<lparr>src = None,
           audioRef = Some \<lparr>el_src = None, el_currentTime = 0, el_paused = True,
                            el_readyState = 0\<rparr>,
           isPlaying = False, currentTime = 0, duration = 0, isLoading = False, error = None\<rparr>
   \<and> isSummarizing (handleClearAndReset audioPlaying) = False
   \<and> selectedFile (handleClearAndReset audioPlaying) = None
   \<and> transcriptSegments (handleClearAndReset audioPlaying) = []"
  using handleClearAndReset_leaves [of audioPlaying "''blob:4''"]
  by (simp add: scenario_defs handler_defs player_defs js_defs Let_def funpow_8)

text \<open>
  C1 as the specification states it fails in two reachable states. In \<open>summaryPending\<close>
  the remove button of the file upload is enabled (the upload is disabled by the two
  processing flags and a non-blank URL only), and the reset it calls leaves the
  summarizing flag set. In \<open>fileProcessed\<close> the clear button is enabled and the audio
  is loaded and paused; the reset's \<open>seekTo 0\<close> then starts the playback, as \<open>seekTo\<close>
  does on every seek of a paused transport.
\<close>

theorem reset_keeps_summarizing_and_plays:
  "fileUploadDisabled summaryPending = False
   \<and> present (selectedFile summaryPending)
   \<and> isSummarizing (handleClearAndReset summaryPending) = True
   \<and> clearAndResetDisabled fileProcessed = False
   \<and> map_option (\<lambda>p. map_option el_paused (audioRef p)) (audioPlayerRef fileProcessed)
       = Some (Some True)
   \<and> map_option (\<lambda>p. map_option el_paused (audioRef p))
        (audioPlayerRef (handleClearAndReset fileProcessed)) = Some (Some False)"
  by (simp add: scenario_defs handler_defs player_defs js_defs flag_defs Let_def funpow_8)

subsection \<open>A URL entered over a file\<close>




subsection \<open>The URL placeholder\<close>

text \<open>
  C7, as the code has it: the test is on the trimmed URL text. When the URL text is not
  blank, \<open>handleProcessYouTubeUrl\<close> starts no file processing (the flag is off, no
  interval runs, and the one timeout it schedules ends the indicator); it sets the
  placeholder message built around the URL, leaves the segments and the full text
  empty, leaves the audio source null, also after the render that follows, and sets the
  URL-processing flag, which the timeout of 500 ms clears. When the URL text is blank
  (empty, or white space only), it adds the validation notice and changes nothing else.
\<close>

theorem processYouTubeUrl_placeholder:
  "(truthy (trim (youtubeUrl s)) \<longrightarrow>
      (let s' = handleProcessYouTubeUrl s in
         youtubePlaceholderMessage s' = Some (placeholderText (youtubeUrl s))
         \<and> transcriptSegments s' = []
         \<and> fullTranscript s' = []
         \<and> isProcessingFile s' = False
         \<and> progressIntervalRef s' = None
         \<and> audioSrc s' = None
         \<and> audioSrc (renderAfterFileChange u s') = None
         \<and> map_option src (audioPlayerRef (renderAudioPlayer s'))
             = map_option (\<lambda>p. None) (audioPlayerRef s)
         \<and> isProcessingYouTube s' = True
         \<and> timeouts s' = timeouts s @ [(500, EndYouTubeIndicator)]
         \<and> runTimeout EndYouTubeIndicator s' = s'\<lparr>isProcessingYouTube := False\<rparr>))
   \<and> (\<not> truthy (trim (youtubeUrl s)) \<longrightarrow>
        handleProcessYouTubeUrl s =
          s\<lparr>toasts := toasts s @
             [\<lparr>title = ''No URL'', description = Some ''Please enter a YouTube video URL.'',
               variant = Some Default, toast_duration = None\<rparr>]\<rparr>)"
proof -
  have blank: "handleProcessYouTubeUrl s =
          s\<lparr>toasts := toasts s @
             [\<lparr>title = ''No URL'', description = Some ''Please enter a YouTube video URL.'',
               variant = Some Default, toast_duration = None\<rparr>]\<rparr>"
    if "\<not> truthy (trim (youtubeUrl s))"
    using that by (simp add: handleProcessYouTubeUrl_def)
  have fields:
      "youtubePlaceholderMessage (handleProcessYouTubeUrl s)
         = Some (placeholderText (youtubeUrl s))"
      "transcriptSegments (handleProcessYouTubeUrl s) = []"
      "fullTranscript (handleProcessYouTubeUrl s) = []"
      "isProcessingFile (handleProcessYouTubeUrl s) = False"
      "progressIntervalRef (handleProcessYouTubeUrl s) = None"
      "audioSrc (handleProcessYouTubeUrl s) = None"
      "isProcessingYouTube (handleProcessYouTubeUrl s) = True"
      "timeouts (handleProcessYouTubeUrl s) = timeouts s @ [(500, EndYouTubeIndicator)]"
      "selectedFile (handleProcessYouTubeUrl s) = None"
      "present (audioPlayerRef (handleProcessYouTubeUrl s)) = present (audioPlayerRef s)"
    if "truthy (trim (youtubeUrl s))"
    using that
    by (simp_all add: handleProcessYouTubeUrl_def handleClearAndReset_def Let_def
        pauseAndSeekToZero_def present_def split: option.splits)
  have eff: "audioSrc (renderAfterFileChange u (handleProcessYouTubeUrl s)) = None"
    if "truthy (trim (youtubeUrl s))"
    using fields(9) [OF that]
    by (simp add: renderAfterFileChange_def renderAudioPlayer_def audioSrcEffect_def)
  have rend: "map_option src (audioPlayerRef (renderAudioPlayer (handleProcessYouTubeUrl s)))
             = map_option (\<lambda>p. None) (audioPlayerRef s)"
    if "truthy (trim (youtubeUrl s))"
    using fields(6,10) [OF that]
    by (auto simp add: renderAudioPlayer_def srcEffect_def Let_def present_def
        split: option.splits)
  have fire: "runTimeout EndYouTubeIndicator s' = s'\<lparr>isProcessingYouTube := False\<rparr>" for s'
    by (simp add: runTimeout_def)
  show ?thesis
    unfolding Let_def using blank fields(1-8) eff rend fire by blast
qed

theorem processYouTubeUrl_placeholder_witness:
  "youtubeUrl urlEntered = ''https://x/y''
   \<and> youtubePlaceholderMessage (handleProcessYouTubeUrl urlEntered)
       = Some (placeholderText ''https://x/y'')
   \<and> transcriptSegments (handleProcessYouTubeUrl urlEntered) = []
   \<and> audioSrc (handleProcessYouTubeUrl urlEntered) = None
   \<and> isProcessingYouTube (handleProcessYouTubeUrl urlEntered) = True
   \<and> isProcessingYouTube (runTimeout EndYouTubeIndicator (handleProcessYouTubeUrl urlEntered))
       = False
   \<and> handleProcessYouTubeUrl initialState =
       initialState\<lparr>toasts :=
         [\<lparr>title = ''No URL'', description = Some ''Please enter a YouTube video URL.'',
           variant = Some Default, toast_duration = None\<rparr>]\<rparr>"
  using processYouTubeUrl_placeholder [of urlEntered u]
    processYouTubeUrl_placeholder [of initialState u]
  by (simp add: scenario_defs handler_defs player_defs js_defs Let_def)

text \<open>
  C7 as the specification states it, for every non-empty URL text, fails for a text of
  white space: in \<open>blankUrlEntered\<close> the URL text is not empty, and the action shows the
  validation notice only; no placeholder message is set and nothing is scheduled. (The
  process button is disabled for such a text as it is for the empty one; the handler
  treats the two alike.)
\<close>

theorem blank_url_is_not_processed:
  "youtubeUrl blankUrlEntered \<noteq> []
   \<and> youtubePlaceholderMessage (handleProcessYouTubeUrl blankUrlEntered) = None
   \<and> isProcessingYouTube (handleProcessYouTubeUrl blankUrlEntered) = False
   \<and> timeouts (handleProcessYouTubeUrl blankUrlEntered) = []
   \<and> map title (toasts (handleProcessYouTubeUrl blankUrlEntered)) = [''No URL'']"
  by (simp add: scenario_defs handler_defs player_defs js_defs Let_def)

subsection \<open>Mode exclusivity\<close>






end
